theory Spec2Isabelle
  imports Complex_Main
begin

section \<open>Python exceptions\<close>

text \<open>
  The exception classes the sources raise or catch. A raised exception is a value
  \<open>Raise cls msg\<close>; a computation that may raise returns \<open>py_error + 'a\<close>.
\<close>

datatype exc_class = ValueError | IndexError | AssertionError | AttributeError
  | KeyError | TypeError | Exception

datatype py_error = Raise exc_class string

fun exc_class_of :: "py_error \<Rightarrow> exc_class" where
  "exc_class_of (Raise c msg) = c"

section \<open>basis.py: cartesian\_gtf\_exponents\<close>

text \<open>
  \<^verbatim>\<open>range(m)\<close> for a Python integer \<open>m\<close>: empty when \<open>m \<le> 0\<close>.
\<close>

definition py_range :: "int \<Rightarrow> int list" where
  "py_range m = [0..m - 1]"

text \<open>
  The loop state: \<open>values_arr\<close> (the source's \<^verbatim>\<open>values\<close>) is the \<open>(n, 3)\<close> array
  allocated by \<^verbatim>\<open>np.empty\<close>, a list of rows in which \<open>None\<close> is a row that has not
  been written yet (its content is whatever the allocator left there), and \<open>h\<close> is the
  next row to write. The entries written are below \<open>l + 1\<close>, far from the bounds of
  \<^verbatim>\<open>int64\<close> for any array that can be allocated, so they are kept as integers.
\<close>

record gtf_state =
  values_arr :: "int list option list"
  h :: nat

text \<open>
  \<^verbatim>\<open>values[h] = [i, j, k]; h += 1\<close>. Writing at a row index outside the array raises
  IndexError.
\<close>

definition store_row :: "gtf_state \<Rightarrow> int list \<Rightarrow> py_error + gtf_state" where
  "store_row s r =
     (if h s < length (values_arr s)
      then Inr (s\<lparr>values_arr := (values_arr s)[h s := Some r], h := h s + 1\<rparr>)
      else Inl (Raise IndexError ''index is out of bounds for axis 0''))"

fun loop_k :: "int \<Rightarrow> int \<Rightarrow> int \<Rightarrow> int list \<Rightarrow> gtf_state \<Rightarrow> py_error + gtf_state" where
  "loop_k l i j [] s = Inr s"
| "loop_k l i j (k # ks) s =
     (if i + j + k = l
      then (case store_row s [i, j, k] of
              Inl e \<Rightarrow> Inl e
            | Inr s' \<Rightarrow> loop_k l i j ks s')
      else loop_k l i j ks s)"

fun loop_j :: "int \<Rightarrow> int \<Rightarrow> int \<Rightarrow> int list \<Rightarrow> gtf_state \<Rightarrow> py_error + gtf_state" where
  "loop_j l m i [] s = Inr s"
| "loop_j l m i (j # js) s =
     (case loop_k l i j (py_range m) s of
        Inl e \<Rightarrow> Inl e
      | Inr s' \<Rightarrow> loop_j l m i js s')"

fun loop_i :: "int \<Rightarrow> int \<Rightarrow> int list \<Rightarrow> gtf_state \<Rightarrow> py_error + gtf_state" where
  "loop_i l m [] s = Inr s"
| "loop_i l m (i # is) s =
     (case loop_j l m i (py_range m) s of
        Inl e \<Rightarrow> Inl e
      | Inr s' \<Rightarrow> loop_i l m is s')"

text \<open>
  \<^verbatim>\<open>m = l + 1; n = (m + 1) * m // 2; values = np.empty((n, 3)); h = 0\<close>, the three
  nested loops over \<^verbatim>\<open>range(m)\<close>, and \<^verbatim>\<open>return values\<close>. Python's \<^verbatim>\<open>//\<close> is floor
  division, as \<open>div\<close> on \<open>int\<close> is.
\<close>

definition cartesian_gtf_exponents :: "int \<Rightarrow> py_error + int list option list" where
  "cartesian_gtf_exponents l =
     (let m = l + 1;
          n = (m + 1) * m div 2
      in case loop_i l m (py_range m) \<lparr>values_arr = replicate (nat n) None, h = 0\<rparr> of
           Inl e \<Rightarrow> Inl e
         | Inr s \<Rightarrow> Inr (values_arr s))"

text \<open>
  For the proofs: the rows the loops emit, in order, as list comprehensions over the same
  ranges; writing a list of rows from row \<open>h\<close> on; the closed form of the emitted rows
  for \<open>l \<ge> 0\<close>; and the lexicographic order on rows.
\<close>

definition emit_k :: "int \<Rightarrow> int \<Rightarrow> int \<Rightarrow> int list \<Rightarrow> int list list" where
  "emit_k l i j ks = map (\<lambda>k. [i, j, k]) (filter (\<lambda>k. i + j + k = l) ks)"

definition emit_j :: "int \<Rightarrow> int \<Rightarrow> int \<Rightarrow> int list \<Rightarrow> int list list" where
  "emit_j l m i js = concat (map (\<lambda>j. emit_k l i j (py_range m)) js)"

definition emit_i :: "int \<Rightarrow> int \<Rightarrow> int list \<Rightarrow> int list list" where
  "emit_i l m is = concat (map (\<lambda>i. emit_j l m i (py_range m)) is)"

fun write_rows :: "gtf_state \<Rightarrow> int list list \<Rightarrow> gtf_state" where
  "write_rows s [] = s"
| "write_rows s (r # rs) =
     write_rows (s\<lparr>values_arr := (values_arr s)[h s := Some r], h := h s + 1\<rparr>) rs"

definition triples :: "int \<Rightarrow> int list list" where
  "triples l = concat (map (\<lambda>i. map (\<lambda>j. [i, j, l - i - j]) [0..l - i]) [0..l])"

definition row_before :: "int list \<Rightarrow> int list \<Rightarrow> bool" where
  "row_before r r' = ((r, r') \<in> lexord {(a, b). a < b})"

section \<open>universe.py: the container and its field\<close>

text \<open>
  A field (\<^verbatim>\<open>AtomicField\<close>) is a dataframe with one row of grid metadata per scalar or
  vector field, and the list \<^verbatim>\<open>field_values\<close> holding the values of each row. A row has
  its \<^verbatim>\<open>frame\<close> column and the remaining columns (origin, point counts, spacings),
  kept abstract as \<open>'g\<close>. Values over the grid are lists of reals.
\<close>

type_synonym vec = "real list"
type_synonym matrix = "real list list"

record 'g field_row =
  frame :: int
  grid :: 'g

record 'g atomic_field =
  rows :: "'g field_row list"
  field_values :: "vec list"

text \<open>
  The attributes of a \<^verbatim>\<open>Universe\<close> that the modelled code reads or writes:
  \<open>u_frame\<close> is the index of \<^verbatim>\<open>self._frame\<close>, \<open>u_atom\<close> the frame column of
  \<^verbatim>\<open>self._atom\<close>, \<open>u_field\<close> is \<^verbatim>\<open>self._field\<close>, \<open>u_orbital\<close> the columns of
  \<^verbatim>\<open>self._orbital\<close> (rows labelled by position) and \<open>traits_need_update\<close> is
  \<^verbatim>\<open>self._traits_need_update\<close>. \<open>None\<close> is Python's \<^verbatim>\<open>None\<close>; for \<open>u_field\<close> it also
  stands for the attribute having been deleted from the instance dictionary, so that
  \<^verbatim>\<open>hasattr(uni, '_field')\<close> with a field attached is \<open>u_field uni \<noteq> None\<close>.
\<close>

record 'g universe =
  u_frame :: "int list option"
  u_atom :: "int list option"
  u_field :: "'g atomic_field option"
  u_orbital :: "(string \<times> vec) list option"
  traits_need_update :: bool

text \<open>
  The property \<^verbatim>\<open>Universe.frame\<close>: when no frame table is set and an atom table is, the
  minimal frame is computed from the atom table and stored
  (\<^verbatim>\<open>compute_minimal_frame\<close>); the property returns \<^verbatim>\<open>self._frame\<close>. The inherited
  test \<^verbatim>\<open>self._is(name)\<close> is read as: the attribute is set, that is, not \<^verbatim>\<open>None\<close>. The
  function \<^verbatim>\<open>minimal_frame\<close> of \<^verbatim>\<open>exatomic.frame\<close> is a parameter.
\<close>

definition frame_property ::
  "(int list \<Rightarrow> int list) \<Rightarrow> 'g universe \<Rightarrow> int list option \<times> 'g universe" where
  "frame_property minimal_frame u =
     (let u' = (if u_frame u = None
                then (case u_atom u of
                        Some a \<Rightarrow> u\<lparr>u_frame := Some (minimal_frame a)\<rparr>
                      | None \<Rightarrow> u)
                else u)
      in (u_frame u', u'))"

text \<open>
  The \<^verbatim>\<open>frame\<close> argument of \<^verbatim>\<open>append_field\<close>: \<^verbatim>\<open>None\<close>, an integer (\<^verbatim>\<open>int\<close>,
  \<^verbatim>\<open>np.int64\<close> or \<^verbatim>\<open>np.int32\<close>), or a value of another type, which the
  \<^verbatim>\<open>isinstance\<close> tests let through untouched.
\<close>

datatype frame_arg = FrameNone | FrameInt int | FrameOther

text \<open>
  \<^verbatim>\<open>self._reconstruct_field('field', field, field_values)\<close> is inherited from the
  container class of \<^verbatim>\<open>exa\<close>. As the docstrings of \<^verbatim>\<open>append_field\<close> and
  \<^verbatim>\<open>__init__\<close> describe it, a complete field is taken as it is, and a separate list of
  field values, when given, completes the field dimensions.
\<close>

definition reconstruct_field :: "'g atomic_field \<Rightarrow> vec list option \<Rightarrow> 'g atomic_field" where
  "reconstruct_field field fvs =
     (case fvs of None \<Rightarrow> field | Some vs \<Rightarrow> field\<lparr>field_values := vs\<rparr>)"

text \<open>
  \<^verbatim>\<open>Universe.append_field(field, frame=None, field_values=None)\<close>. The result is the
  exception raised, if any, and the universe afterwards. \<^verbatim>\<open>field['frame'] = frame\<close>
  sets the frame column of every row; \<^verbatim>\<open>pd.concat(..., ignore_index=True)\<close> puts the
  rows of the new field after those of the attached one and renumbers them by position.
  The conversions \<^verbatim>\<open>_revert_categories\<close> and \<^verbatim>\<open>_set_categories\<close> change column
  types only and are left out.
\<close>

definition append_field ::
  "(int list \<Rightarrow> int list) \<Rightarrow> 'g universe \<Rightarrow> 'g atomic_field \<Rightarrow> frame_arg \<Rightarrow> vec list option
   \<Rightarrow> (py_error + unit) \<times> 'g universe" where
  "append_field minimal_frame u field frm fvs =
     (let attach = (\<lambda>u1 field1.
            let df = reconstruct_field field1 fvs;
                u2 = (case u_field u1 of
                        None \<Rightarrow> u1\<lparr>u_field := Some df\<rparr>
                      | Some old \<Rightarrow>
                          u1\<lparr>u_field := Some \<lparr>rows = rows old @ rows df,
                                               field_values = field_values old @ field_values df\<rparr>\<rparr>)
            in (Inr (), u2\<lparr>traits_need_update := True\<rparr>))
      in case frm of
           FrameInt n \<Rightarrow>
             (case frame_property minimal_frame u of
                (None, u1) \<Rightarrow>
                  (Inl (Raise AttributeError ''NoneType object has no attribute index''), u1)
              | (Some idx, u1) \<Rightarrow>
                  if n \<notin> set idx
                  then (Inl (Raise IndexError ''frame {} does not exist in the universe?''), u1)
                  else attach u1 (field\<lparr>rows := map (\<lambda>r. r\<lparr>frame := n\<rparr>) (rows field)\<rparr>))
         | _ \<Rightarrow> attach u field)"

text \<open>
  Modelled from the spec: \<^verbatim>\<open>Universe.add_field\<close>, which \<^verbatim>\<open>_teardown_orbital\<close> calls, is
  not defined in the sources. The spec's Field Assembler (4.6) says: if no field is attached
  yet, sets it; otherwise concatenates field-value lists while preserving each field's own
  grid metadata; and marks the container's cached display state as needing refresh.
\<close>

definition add_field :: "'g universe \<Rightarrow> 'g atomic_field \<Rightarrow> 'g universe" where
  "add_field u field =
     (case u_field u of
        None \<Rightarrow> u\<lparr>u_field := Some field, traits_need_update := True\<rparr>
      | Some old \<Rightarrow>
          u\<lparr>u_field := Some \<lparr>rows = rows old @ rows field,
                              field_values = field_values old @ field_values field\<rparr>,
            traits_need_update := True\<rparr>)"

section \<open>orbital.py: effects and collaborators\<close>

text \<open>
  What a call does besides returning: it prints, and it calls the functions of
  \<^verbatim>\<open>orbital_util\<close> and the accessors of the universe, which are not in the sources.
  Each such step is recorded in order in a log. \<open>Print\<close> carries the source's format
  string; the values filled in (counts, elapsed seconds, shapes) are not modelled. The calls
  that claims are about carry their arguments.
\<close>

datatype event =
    Print string
  | Call string
  | CheckColumn string "string option"
  | ComputeOrbitals nat matrix "nat list" matrix
  | ComputeOrbitalsNojit nat matrix "nat list" matrix

text \<open>
  The state a call runs in: \<open>uni\<close>, the attributes of the universe above; \<open>stored\<close>,
  the names of the derived tables that the container has computed and holds (see
  \<open>call_on\<close> below); and the log.
\<close>

record 'g world =
  uni :: "'g universe"
  stored :: "string list"
  log :: "event list"

type_synonym ('g, 'a) run = "'g world \<Rightarrow> (py_error + 'a) \<times> 'g world"

definition returnr :: "'a \<Rightarrow> ('g, 'a) run" where
  "returnr a w = (Inr a, w)"

definition raiser :: "py_error \<Rightarrow> ('g, 'a) run" where
  "raiser e w = (Inl e, w)"

text \<open>Sequencing: an exception ends the run with the state reached so far.\<close>

definition bindr :: "('g, 'a) run \<Rightarrow> ('a \<Rightarrow> ('g, 'b) run) \<Rightarrow> ('g, 'b) run" where
  "bindr m f w = (case m w of (Inl e, w') \<Rightarrow> (Inl e, w') | (Inr a, w') \<Rightarrow> f a w')"

definition emit :: "event \<Rightarrow> ('g, unit) run" where
  "emit ev w = (Inr (), w\<lparr>log := log w @ [ev]\<rparr>)"

text \<open>\<^verbatim>\<open>if verbose: print(msg)\<close>\<close>

definition print_if :: "bool \<Rightarrow> string \<Rightarrow> ('g, unit) run" where
  "print_if b msg = (if b then emit (Print msg) else returnr ())"

text \<open>A call of a collaborator: the call is logged, its outcome is the collaborator's.\<close>

definition call :: "event \<Rightarrow> py_error + 'a \<Rightarrow> ('g, 'a) run" where
  "call ev r w = (r, w\<lparr>log := log w @ [ev]\<rparr>)"

text \<open>
  Modelled from the spec: the accessors \<^verbatim>\<open>basis_functions\<close>, \<^verbatim>\<open>basis_set_order\<close> and
  \<^verbatim>\<open>current_momatrix\<close> of the universe, which the evaluators read, are not in the
  sources. The spec (1, 9): the container exposes lazy, cached accessors; it recomputes a
  derived table on first access, with an accessor that computes-and-stores on miss. A
  collaborator reached through such an accessor is called with \<open>call_on\<close>: when the step
  returns, the table is among those the container holds.
\<close>

definition store_table :: "string \<Rightarrow> 'g world \<Rightarrow> 'g world" where
  "store_table name w =
     (if name \<in> set (stored w) then w else w\<lparr>stored := stored w @ [name]\<rparr>)"

definition call_on :: "string \<Rightarrow> event \<Rightarrow> py_error + 'a \<Rightarrow> ('g, 'a) run" where
  "call_on table ev r w =
     (case r of
        Inl e \<Rightarrow> (Inl e, w\<lparr>log := log w @ [ev]\<rparr>)
      | Inr a \<Rightarrow> (Inr a, (store_table table w)\<lparr>log := log w @ [ev]\<rparr>))"

text \<open>
  The value an evaluator hands to \<^verbatim>\<open>_make_field\<close>: a one-dimensional array (a density)
  or a two-dimensional one.
\<close>

datatype ndarray = Arr1 vec | Arr2 matrix

text \<open>
  The collaborators, as functions of their arguments other than the universe: what they
  return depends on tables of the universe (basis set, coefficient matrix, atoms) whose
  content the modelled code never changes. That a table was computed and stored on the
  way is recorded by \<open>call_on\<close>. Each may raise. \<open>'g\<close> is a row of field parameters.
\<close>

record 'g collaborators =
  len_basis_functions :: "py_error + nat"
  len_irrep_group :: "int \<Rightarrow> py_error + nat"
  determine_vector :: "nat list option \<Rightarrow> int option \<Rightarrow> py_error + nat list"
  determine_fps :: "'g field_row list option \<Rightarrow> nat \<Rightarrow> py_error + 'g field_row list"
  numerical_grid_from_field_params :: "'g field_row list \<Rightarrow> py_error + vec \<times> vec \<times> vec"
  evaluate :: "vec \<Rightarrow> vec \<Rightarrow> vec \<Rightarrow> int option \<Rightarrow> bool \<Rightarrow> py_error + matrix"
  evaluate_diff :: "vec \<Rightarrow> vec \<Rightarrow> vec \<Rightarrow> string \<Rightarrow> bool \<Rightarrow> py_error + matrix"
  check_column :: "string \<Rightarrow> string option \<Rightarrow> py_error + string"
  square :: "string \<Rightarrow> int option \<Rightarrow> py_error + matrix"
  compute_orbitals :: "nat \<Rightarrow> matrix \<Rightarrow> nat list \<Rightarrow> matrix \<Rightarrow> py_error + matrix"
  compute_orbitals_nojit :: "nat \<Rightarrow> matrix \<Rightarrow> nat list \<Rightarrow> matrix \<Rightarrow> py_error + matrix"
  compute_density :: "matrix \<Rightarrow> vec \<Rightarrow> py_error + vec"
  compute_current_density ::
    "matrix \<Rightarrow> matrix \<Rightarrow> matrix \<Rightarrow> matrix \<Rightarrow> matrix \<Rightarrow> matrix \<Rightarrow> vec \<Rightarrow> bool
     \<Rightarrow> py_error + vec \<times> vec \<times> vec"
  compute_orb_ang_mom ::
    "vec \<Rightarrow> vec \<Rightarrow> vec \<Rightarrow> vec \<Rightarrow> vec \<Rightarrow> vec \<Rightarrow> matrix \<Rightarrow> py_error + ndarray"
  make_field :: "ndarray \<Rightarrow> 'g field_row list \<Rightarrow> py_error + 'g atomic_field"

section \<open>orbital.py: the evaluators\<close>

text \<open>
  \<^verbatim>\<open>_setup_orbital(uni, verbose, vector, fps, icoefs, jcoefs=None, irrep=None)\<close>. The
  time stamp \<^verbatim>\<open>t1\<close> is left out. The result is the 8-tuple, with the ninth component
  \<^verbatim>\<open>jcoefs\<close> present when \<^verbatim>\<open>jcoefs\<close> was given.
\<close>

definition setup_orbital ::
  "'g collaborators \<Rightarrow> bool \<Rightarrow> nat list option \<Rightarrow> 'g field_row list option \<Rightarrow> string option
   \<Rightarrow> string option \<Rightarrow> int option
   \<Rightarrow> ('g, nat list \<times> 'g field_row list \<times> vec \<times> vec \<times> vec \<times> matrix \<times> matrix \<times> matrix option) run"
  where
  "setup_orbital c verbose vector fps icoefs jcoefs irrep =
     bindr (call_on ''basis_functions'' (Call ''len(uni.basis_functions)'')
              (len_basis_functions c)) (\<lambda>nbf0.
     bindr (case irrep of
              None \<Rightarrow> returnr nbf0
            | Some ir \<Rightarrow> call_on ''basis_set_order''
                          (Call ''len(uni.basis_set_order.groupby(irrep).get_group(irrep).index)'')
                          (len_irrep_group c ir)) (\<lambda>nbf.
     bindr (print_if verbose ''Evaluating {} basis functions once.'') (\<lambda>_.
     bindr (call (Call ''_determine_vector'') (determine_vector c vector irrep)) (\<lambda>vector.
     bindr (call (Call ''_determine_fps'') (determine_fps c fps (length vector))) (\<lambda>fps.
     bindr (call (Call ''numerical_grid_from_field_params'')
              (numerical_grid_from_field_params c fps)) (\<lambda>(x, y, z).
     bindr (call_on ''basis_functions'' (Call ''uni.basis_functions.evaluate'')
              (evaluate c x y z irrep verbose)) (\<lambda>bvs.
     bindr (call (CheckColumn ''current_momatrix'' icoefs)
              (check_column c ''current_momatrix'' icoefs)) (\<lambda>icol.
     bindr (call_on ''current_momatrix'' (Call ''uni.current_momatrix.square'')
              (square c icol irrep)) (\<lambda>icoefs.
     case jcoefs of
       None \<Rightarrow> returnr (vector, fps, x, y, z, bvs, icoefs, None)
     | Some jc \<Rightarrow>
         bindr (call (CheckColumn ''current_momatrix'' (Some jc))
                  (check_column c ''current_momatrix'' (Some jc))) (\<lambda>jcol.
         bindr (call_on ''current_momatrix'' (Call ''uni.current_momatrix.square'')
                  (square c jcol None)) (\<lambda>jcoefs.
         returnr (vector, fps, x, y, z, bvs, icoefs, Some jcoefs))))))))))))"

text \<open>
  \<^verbatim>\<open>_teardown_orbital(uni, verbose, field, t1, inplace, replace, dens=False)\<close>. It
  returns the field when \<^verbatim>\<open>inplace\<close> is false and \<^verbatim>\<open>None\<close> otherwise.
\<close>

definition teardown_orbital ::
  "bool \<Rightarrow> 'g atomic_field \<Rightarrow> bool \<Rightarrow> bool \<Rightarrow> bool \<Rightarrow> ('g, 'g atomic_field option) run" where
  "teardown_orbital verbose field inplace replace dens =
     bindr (print_if verbose
              (if dens then ''Timing: compute density  - {:>8.2f}s.''
               else ''Timing: compute orbitals - {:>8.2f}s.'')) (\<lambda>_.
     if \<not> inplace then returnr (Some field)
     else (\<lambda>w.
       let u1 = (if replace \<and> u_field (uni w) \<noteq> None
                 then (uni w)\<lparr>u_field := None\<rparr>
                 else uni w)
       in (Inr None, w\<lparr>uni := add_field u1 field\<rparr>)))"

text \<open>
  The exceptions caught by \<^verbatim>\<open>except (ValueError, IndexError, AssertionError)\<close>.
  Exception classes are taken without their subclasses.
\<close>

definition caught :: "py_error \<Rightarrow> bool" where
  "caught e = (exc_class_of e \<in> {ValueError, IndexError, AssertionError})"

text \<open>
  The \<^verbatim>\<open>try\<close> statement of \<^verbatim>\<open>add_molecular_orbitals\<close> and of \<^verbatim>\<open>add_density\<close>:
  \<^verbatim>\<open>_compute_orbitals\<close> is tried, and a caught exception leads to
  \<^verbatim>\<open>_compute_orbitals_nojit\<close> on the same arguments. \<open>announce\<close> says whether the
  handler prints its notice: \<^verbatim>\<open>add_molecular_orbitals\<close> prints it
  \<^verbatim>\<open>if verbose\<close>; in \<^verbatim>\<open>add_density\<close> that test is commented out and the notice is
  always printed.
\<close>

definition try_compute_orbitals ::
  "'g collaborators \<Rightarrow> bool \<Rightarrow> nat \<Rightarrow> matrix \<Rightarrow> nat list \<Rightarrow> matrix \<Rightarrow> ('g, matrix) run" where
  "try_compute_orbitals c announce npts bvs vector mocoefs w =
     (case call (ComputeOrbitals npts bvs vector mocoefs)
             (compute_orbitals c npts bvs vector mocoefs) w of
        (Inr ovs, w1) \<Rightarrow> (Inr ovs, w1)
      | (Inl e, w1) \<Rightarrow>
          if caught e
          then bindr (print_if announce ''Falling back to numpy orbital evaluation.'') (\<lambda>_.
               call (ComputeOrbitalsNojit npts bvs vector mocoefs)
                 (compute_orbitals_nojit c npts bvs vector mocoefs)) w1
          else (Inl e, w1))"

text \<open>
  \<^verbatim>\<open>add_molecular_orbitals\<close>. Its parameter \<^verbatim>\<open>frame\<close> is never used and is left out.
\<close>

definition add_molecular_orbitals ::
  "'g collaborators \<Rightarrow> 'g field_row list option \<Rightarrow> string option \<Rightarrow> nat list option
   \<Rightarrow> bool \<Rightarrow> bool \<Rightarrow> bool \<Rightarrow> int option \<Rightarrow> ('g, 'g atomic_field option) run" where
  "add_molecular_orbitals c field_params mocoefs vector inplace replace verbose irrep =
     bindr (setup_orbital c verbose vector field_params mocoefs None irrep)
       (\<lambda>(vector, fps, x, y, z, bvs, mocoefs, jc).
     bindr (try_compute_orbitals c verbose (length x) bvs vector mocoefs) (\<lambda>ovs.
     bindr (call (Call ''_make_field'') (make_field c (Arr2 ovs) fps)) (\<lambda>field.
     teardown_orbital verbose field inplace replace False)))"

text \<open>
  \<^verbatim>\<open>orbocc = mocol if orbocc is None and mocol != 'coef' else orbocc\<close>, the name
  handed to \<^verbatim>\<open>_check_column(uni, 'orbital', orbocc)\<close>.
\<close>

definition density_orbocc :: "string option \<Rightarrow> string option \<Rightarrow> string option" where
  "density_orbocc orbocc mocol =
     (if orbocc = None \<and> mocol \<noteq> Some ''coef'' then mocol else orbocc)"

text \<open>\<^verbatim>\<open>uni.orbital[col]\<close>: the values of a column of the orbital table.\<close>

definition orbital_column :: "string \<Rightarrow> ('g, vec) run" where
  "orbital_column col w =
     (case u_orbital (uni w) of
        None \<Rightarrow> (Inl (Raise TypeError ''NoneType object is not subscriptable''), w)
      | Some cols \<Rightarrow>
          (case map_of cols col of
             None \<Rightarrow> (Inl (Raise KeyError col), w)
           | Some v \<Rightarrow> (Inr v, w)))"

text \<open>
  \<^verbatim>\<open>np.isclose(a, 0)\<close> with the default tolerances:
  \<open>\<bar>a - 0\<bar> \<le> atol + rtol * \<bar>0\<bar>\<close> with \<open>atol = 1e-8\<close>. Reals stand for the floats.
\<close>

definition isclose0 :: "real \<Rightarrow> bool" where
  "isclose0 a = (\<bar>a\<bar> \<le> 1 / 10 ^ 8)"

text \<open>\<^verbatim>\<open>fps.loc[0]\<close>: the row labelled 0 of the field parameters.\<close>

definition loc0 :: "'a list \<Rightarrow> ('g, 'a) run" where
  "loc0 xs = (case xs of [] \<Rightarrow> raiser (Raise KeyError ''0'') | x # _ \<Rightarrow> returnr x)"

text \<open>
  \<^verbatim>\<open>add_density\<close>. Its parameters \<^verbatim>\<open>frame\<close> and \<^verbatim>\<open>norm\<close> are never used and are left
  out. The orbitals evaluated are those whose occupation is not close to zero.
\<close>

definition add_density ::
  "'g collaborators \<Rightarrow> 'g field_row list option \<Rightarrow> string option \<Rightarrow> string option
   \<Rightarrow> bool \<Rightarrow> bool \<Rightarrow> ('g, 'g atomic_field option) run" where
  "add_density c field_params mocoefs orbocc inplace verbose =
     bindr (setup_orbital c verbose None field_params mocoefs None None)
       (\<lambda>(vector0, fps, x, y, z, bvs, mocoefs', jc).
     bindr (call (CheckColumn ''orbital'' (density_orbocc orbocc mocoefs))
              (check_column c ''orbital'' (density_orbocc orbocc mocoefs))) (\<lambda>col.
     bindr (orbital_column col) (\<lambda>occ.
     let vector = filter (\<lambda>i. \<not> isclose0 (occ ! i)) [0..<length occ];
         orbocc' = map (\<lambda>i. occ ! i) vector
     in
     bindr (try_compute_orbitals c True (length x) bvs vector mocoefs') (\<lambda>ovs.
     bindr (call (Call ''_compute_density'') (compute_density c ovs orbocc')) (\<lambda>dens.
     bindr (loc0 fps) (\<lambda>fp0.
     bindr (call (Call ''_make_field'') (make_field c (Arr1 dens) [fp0])) (\<lambda>field.
     teardown_orbital verbose field inplace False False)))))))"

text \<open>\<^verbatim>\<open>np.eye(3)\<close>\<close>

definition eye3 :: matrix where
  "eye3 = [[1, 0, 0], [0, 1, 0], [0, 0, 1]]"

text \<open>
  \<^verbatim>\<open>add_orb_ang_mom\<close>. Its parameters \<^verbatim>\<open>frame\<close> and \<^verbatim>\<open>norm\<close> are never used and are
  left out. The first statement raises unless both \<^verbatim>\<open>rcoefs\<close> and \<^verbatim>\<open>icoefs\<close> are given.
  The two \<^verbatim>\<open>print\<close> calls of the shapes are not under \<^verbatim>\<open>if verbose\<close>.
\<close>

definition add_orb_ang_mom ::
  "'g collaborators \<Rightarrow> 'g field_row list option \<Rightarrow> string option \<Rightarrow> string option
   \<Rightarrow> string option \<Rightarrow> matrix option \<Rightarrow> bool \<Rightarrow> bool \<Rightarrow> ('g, 'g atomic_field option) run" where
  "add_orb_ang_mom c field_params rcoefs icoefs orbocc maxes inplace verbose =
     (case (rcoefs, icoefs) of
        (Some rcol, Some icol) \<Rightarrow>
          bindr (setup_orbital c verbose None field_params (Some rcol) (Some icol) None)
            (\<lambda>(vector, fps, x, y, z, bvs, rc, jc).
          bindr (case jc of
                   Some ic \<Rightarrow> returnr ic
                 | None \<Rightarrow> raiser (Raise ValueError ''not enough values to unpack'')) (\<lambda>ic.
          bindr (case maxes of
                   None \<Rightarrow> bindr (print_if verbose
                     ''If magnetic axes are not an identity matrix, specify maxes.'')
                     (\<lambda>_. returnr eye3)
                 | Some m \<Rightarrow> returnr m) (\<lambda>maxes'.
          bindr (orbital_column (case orbocc of None \<Rightarrow> rcol | Some oc \<Rightarrow> oc)) (\<lambda>occvec.
          bindr (call_on ''basis_functions'' (Call ''uni.basis_functions.evaluate_diff'')
                   (evaluate_diff c x y z ''x'' verbose)) (\<lambda>grx.
          bindr (call_on ''basis_functions'' (Call ''uni.basis_functions.evaluate_diff'')
                   (evaluate_diff c x y z ''y'' verbose)) (\<lambda>gry.
          bindr (call_on ''basis_functions'' (Call ''uni.basis_functions.evaluate_diff'')
                   (evaluate_diff c x y z ''z'' verbose)) (\<lambda>grz.
          bindr (print_if verbose ''Timing: grid evaluation  - {:>8.2f}s.'') (\<lambda>_.
          bindr (emit (Print ''{rcoefs.shape} {rcoefs.dtype}'')) (\<lambda>_.
          bindr (emit (Print ''{icoefs.shape} {icoefs.dtype}'')) (\<lambda>_.
          bindr (call (Call ''_compute_current_density'')
                   (compute_current_density c bvs grx gry grz rc ic occvec verbose))
            (\<lambda>(curx, cury, curz).
          bindr (print_if verbose ''Timing: current density  - {:>8.2f}s.'') (\<lambda>_.
          bindr (call (Call ''_compute_orb_ang_mom'')
                   (compute_orb_ang_mom c x y z curx cury curz maxes')) (\<lambda>lm.
          bindr (call (Call ''_make_field'') (make_field c lm fps)) (\<lambda>field.
          teardown_orbital False field inplace False False))))))))))))))
      | _ \<Rightarrow> raiser (Raise Exception ''Must specify rcoefs and icoefs''))"

section \<open>Parts of orbital\_util taken from the spec\<close>

text \<open>
  Modelled from the spec: \<^verbatim>\<open>_compute_orbitals_nojit\<close> of \<^verbatim>\<open>orbital_util\<close> is not in
  the sources. The spec (4.4, \<^verbatim>\<open>evaluate_orbitals\<close>): for each selected orbital, the
  grid-point-wise linear combination of basis values weighted by that orbital's coefficient
  column, a matrix product of shape grid points by orbitals.
\<close>

definition evaluate_orbitals :: "matrix \<Rightarrow> nat list \<Rightarrow> matrix \<Rightarrow> matrix" where
  "evaluate_orbitals bvs vector cmat =
     map (\<lambda>row. map (\<lambda>k. (\<Sum>b\<leftarrow>[0..<length row]. row ! b * cmat ! b ! k)) vector) bvs"

text \<open>
  Modelled from the spec: \<^verbatim>\<open>_compute_density\<close> of \<^verbatim>\<open>orbital_util\<close> is not in the
  sources. The spec (4.4, \<^verbatim>\<open>evaluate_density\<close>): density at each grid point is the sum
  over orbitals of \<open>occupation[o] * orbital_value[point, o]\<^sup>2\<close>.
\<close>

definition evaluate_density :: "matrix \<Rightarrow> vec \<Rightarrow> vec" where
  "evaluate_density ovs occ =
     map (\<lambda>row. (\<Sum>k\<leftarrow>[0..<length occ]. occ ! k * (row ! k)\<^sup>2)) ovs"

text \<open>
  Modelled from the spec: \<^verbatim>\<open>_make_field\<close> of \<^verbatim>\<open>orbital_util\<close> is not in the sources.
  The spec (4.6): given computed array(s) and a grid specification, constructs a field. A
  one-dimensional array is one value array; a two-dimensional one gives a value array per
  row.
\<close>

definition make_field_spec :: "ndarray \<Rightarrow> 'g field_row list \<Rightarrow> 'g atomic_field" where
  "make_field_spec a fps =
     \<lparr>rows = fps, field_values = (case a of Arr1 v \<Rightarrow> [v] | Arr2 m \<Rightarrow> m)\<rparr>"

section \<open>A small universe for evaluation\<close>

text \<open>
  Two basis functions on a grid of two points, with the identity as basis values and as
  coefficient matrix. The specialised orbital computation refuses its input with a
  ValueError, so that every evaluation goes through the handler; the generic computation,
  the density and the field are the ones above. Column names are accepted as given, with
  the defaults of the docstrings for \<^verbatim>\<open>None\<close>.
\<close>

definition example_collaborators :: "unit collaborators" where
  "example_collaborators =
     \<lparr>len_basis_functions = Inr 2,
      len_irrep_group = (\<lambda>ir. Inr 2),
      determine_vector = (\<lambda>v ir. Inr (case v of None \<Rightarrow> [0, 1] | Some vs \<Rightarrow> vs)),
      determine_fps = (\<lambda>fps n. Inr (case fps of
                         None \<Rightarrow> replicate n \<lparr>frame = 0, grid = ()\<rparr>
                       | Some rs \<Rightarrow> rs)),
      numerical_grid_from_field_params = (\<lambda>fps. Inr ([0, 1], [0, 0], [0, 0])),
      evaluate = (\<lambda>x y z ir verbose. Inr [[1, 0], [0, 1]]),
      evaluate_diff = (\<lambda>x y z cart verbose. Inr [[0, 0], [0, 0]]),
      check_column = (\<lambda>table key. Inr (case key of
                         None \<Rightarrow> if table = ''orbital'' then ''occupation'' else ''coef''
                       | Some k \<Rightarrow> k)),
      square = (\<lambda>col ir. Inr [[1, 0], [0, 1]]),
      compute_orbitals = (\<lambda>npts bvs vector cmat. Inl (Raise ValueError ''unsupported input'')),
      compute_orbitals_nojit = (\<lambda>npts bvs vector cmat. Inr (evaluate_orbitals bvs vector cmat)),
      compute_density = (\<lambda>ovs occ. Inr (evaluate_density ovs occ)),
      compute_current_density = (\<lambda>bvs grx gry grz rc ic occ verbose. Inr ([0, 0], [0, 0], [0, 0])),
      compute_orb_ang_mom = (\<lambda>x y z cx cy cz maxes. Inr (Arr2 [cx, cy, cz])),
      make_field = (\<lambda>a fps. Inr (make_field_spec a fps))\<rparr>"

definition example_universe :: "unit universe" where
  "example_universe =
     \<lparr>u_frame = Some [0], u_atom = None, u_field = None,
      u_orbital = Some [(''occupation'', [2, 0]), (''empty'', [0, 0]), (''lreal'', [1, 0])],
      traits_need_update = False\<rparr>"

definition example_world :: "unit world" where
  "example_world = \<lparr>uni = example_universe, stored = [], log = []\<rparr>"

definition example_field :: "unit atomic_field" where
  "example_field = \<lparr>rows = [\<lparr>frame = 0, grid = ()\<rparr>], field_values = [[1, 2]]\<rparr>"

definition other_field :: "unit atomic_field" where
  "other_field = \<lparr>rows = [\<lparr>frame = 0, grid = ()\<rparr>], field_values = [[3, 4]]\<rparr>"

text \<open>
  The same collaborators with an orbital index outside the coefficient matrix: the
  specialised computation fails an assertion, the generic one an index check.
\<close>

definition failing_collaborators :: "unit collaborators" where
  "failing_collaborators =
     example_collaborators
       \<lparr>compute_orbitals := (\<lambda>npts bvs vector cmat.
           Inl (Raise AssertionError ''orbital index outside the coefficient matrix'')),
        compute_orbitals_nojit := (\<lambda>npts bvs vector cmat.
           Inl (Raise IndexError ''index 5 is out of bounds for axis 1 with size 2''))\<rparr>"

section \<open>Notions used in the proofs\<close>

text \<open>
  A run keeps the universe when it leaves \<open>uni\<close> as it found it. \<open>is_nojit\<close> picks
  the calls of \<^verbatim>\<open>_compute_orbitals_nojit\<close> out of a log.
\<close>

definition keeps_uni :: "('g, 'a) run \<Rightarrow> bool" where
  "keeps_uni m = (\<forall>w. uni (snd (m w)) = uni w)"

fun is_nojit :: "event \<Rightarrow> bool" where
  "is_nojit (ComputeOrbitalsNojit n b v m) = True"
| "is_nojit ev = False"

text \<open>
  Collaborators are blind to \<^verbatim>\<open>verbose\<close> when the flag passed on to them does not change
  what they return. Two runs agree when, started on the same universe, they end with the
  same outcome and the same universe, whatever they log.
\<close>

definition verbose_blind :: "'g collaborators \<Rightarrow> bool" where
  "verbose_blind c =
     ((\<forall>x y z ir. evaluate c x y z ir True = evaluate c x y z ir False) \<and>
      (\<forall>x y z cart. evaluate_diff c x y z cart True = evaluate_diff c x y z cart False) \<and>
      (\<forall>bvs grx gry grz rc ic occ.
         compute_current_density c bvs grx gry grz rc ic occ True =
         compute_current_density c bvs grx gry grz rc ic occ False))"

definition agree :: "('g, 'a) run \<Rightarrow> ('g, 'a) run \<Rightarrow> bool" where
  "agree m1 m2 =
     (\<forall>w1 w2. uni w1 = uni w2 \<longrightarrow>
        fst (m1 w1) = fst (m2 w2) \<and> uni (snd (m1 w1)) = uni (snd (m2 w2)))"

section \<open>Proofs: the exponent generator\<close>

lemma write_rows_append: "write_rows s (xs @ ys) = write_rows (write_rows s xs) ys"
  by (induction xs arbitrary: s) simp_all

lemma write_rows_length [simp]: "length (values_arr (write_rows s rs)) = length (values_arr s)"
  by (induction rs arbitrary: s) simp_all

lemma write_rows_h [simp]: "h (write_rows s rs) = h s + length rs"
  by (induction rs arbitrary: s) simp_all

lemma loop_k_write:
  "h s + length (emit_k l i j ks) \<le> length (values_arr s) \<Longrightarrow>
   loop_k l i j ks s = Inr (write_rows s (emit_k l i j ks))"
proof (induction ks arbitrary: s)
  case Nil
  then show ?case by (simp add: emit_k_def)
next
  case (Cons k ks)
  show ?case
  proof (cases "i + j + k = l")
    case True
    let ?s' = "s\<lparr>values_arr := (values_arr s)[h s := Some [i, j, k]], h := h s + 1\<rparr>"
    from True Cons.prems have lt: "h s < length (values_arr s)"
      and rest: "h ?s' + length (emit_k l i j ks) \<le> length (values_arr ?s')"
      by (simp_all add: emit_k_def)
    from Cons.IH [OF rest] True lt show ?thesis
      by (simp add: store_row_def emit_k_def)
  next
    case False
    with Cons show ?thesis by (simp add: emit_k_def)
  qed
qed

lemma loop_j_write:
  "h s + length (emit_j l m i js) \<le> length (values_arr s) \<Longrightarrow>
   loop_j l m i js s = Inr (write_rows s (emit_j l m i js))"
proof (induction js arbitrary: s)
  case Nil
  then show ?case by (simp add: emit_j_def)
next
  case (Cons j js)
  let ?e = "emit_k l i j (py_range m)"
  from Cons.prems have a: "h s + length ?e \<le> length (values_arr s)"
    and b: "h (write_rows s ?e) + length (emit_j l m i js) \<le> length (values_arr (write_rows s ?e))"
    by (simp_all add: emit_j_def)
  show ?case
    using loop_k_write [OF a] Cons.IH [OF b]
    by (simp add: emit_j_def write_rows_append)
qed

lemma loop_i_write:
  "h s + length (emit_i l m is) \<le> length (values_arr s) \<Longrightarrow>
   loop_i l m is s = Inr (write_rows s (emit_i l m is))"
proof (induction "is" arbitrary: s)
  case Nil
  then show ?case by (simp add: emit_i_def)
next
  case (Cons i "is")
  let ?e = "emit_j l m i (py_range m)"
  from Cons.prems have a: "h s + length ?e \<le> length (values_arr s)"
    and b: "h (write_rows s ?e) + length (emit_i l m is) \<le> length (values_arr (write_rows s ?e))"
    by (simp_all add: emit_i_def)
  show ?case
    using loop_j_write [OF a] Cons.IH [OF b]
    by (simp add: emit_i_def write_rows_append)
qed

lemma write_rows_values:
  "h s + length rs \<le> length (values_arr s) \<Longrightarrow>
   values_arr (write_rows s rs) =
     take (h s) (values_arr s) @ map Some rs @ drop (h s + length rs) (values_arr s)"
proof (induction rs arbitrary: s)
  case Nil
  then show ?case by simp
next
  case (Cons r rs)
  let ?s' = "s\<lparr>values_arr := (values_arr s)[h s := Some r], h := h s + 1\<rparr>"
  from Cons.prems have lt: "h s < length (values_arr s)"
    and rest: "h ?s' + length rs \<le> length (values_arr ?s')" by simp_all
  from Cons.IH [OF rest] lt show ?case
    by (simp add: take_Suc_conv_app_nth)
qed

lemma write_rows_full:
  "length rs = n \<Longrightarrow>
   values_arr (write_rows \<lparr>values_arr = replicate n None, h = 0\<rparr> rs) = map Some rs"
  using write_rows_values [of "\<lparr>values_arr = replicate n None, h = 0\<rparr>" rs] by simp

lemma filter_eq_upto:
  "filter (\<lambda>k. k = c) [a..b] = (if a \<le> c \<and> c \<le> b then [c] else [])"
proof (cases "a \<le> c \<and> c \<le> b")
  case True
  then have "[a..b] = [a..c - 1] @ c # [c + 1..b]" by (simp add: upto_split3)
  then show ?thesis using True by (simp add: filter_empty_conv)
next
  case False
  then show ?thesis by (auto simp add: filter_empty_conv)
qed

lemma py_range_Suc [simp]: "py_range (l + 1) = [0..l]"
  by (simp add: py_range_def)

lemma emit_k_closed:
  assumes "0 \<le> i" "0 \<le> j"
  shows "emit_k l i j [0..l] = (if i + j \<le> l then [[i, j, l - i - j]] else [])"
proof -
  have "(\<lambda>k. i + j + k = l) = (\<lambda>k. k = l - i - j)" by auto
  then show ?thesis using assms
    by (simp add: emit_k_def filter_eq_upto)
qed

lemma emit_j_closed:
  assumes "0 \<le> i" "i \<le> l"
  shows "emit_j l (l + 1) i [0..l] = map (\<lambda>j. [i, j, l - i - j]) [0..l - i]"
proof -
  have split: "[0..l] = [0..l - i] @ [l - i + 1..l]"
    using assms upto_split2 [of 0 "l - i" l] by simp
  have "map (\<lambda>j. emit_k l i j [0..l]) [0..l - i] =
        map (\<lambda>j. [[i, j, l - i - j]]) [0..l - i]"
    using assms by (intro map_cong) (auto simp: emit_k_closed)
  then have a: "concat (map (\<lambda>j. emit_k l i j [0..l]) [0..l - i]) =
             map (\<lambda>j. [i, j, l - i - j]) [0..l - i]"
    by (simp only: concat_map_singleton)
  have b: "concat (map (\<lambda>j. emit_k l i j [0..l]) [l - i + 1..l]) = []"
    using assms by (auto simp: emit_k_closed)
  have "emit_j l (l + 1) i [0..l] =
        concat (map (\<lambda>j. emit_k l i j [0..l]) [0..l - i]) @
        concat (map (\<lambda>j. emit_k l i j [0..l]) [l - i + 1..l])"
    unfolding emit_j_def py_range_Suc by (subst split) simp
  then show ?thesis by (simp only: a b append_Nil2)
qed

lemma emit_i_closed:
  assumes "0 \<le> l"
  shows "emit_i l (l + 1) [0..l] = triples l"
proof -
  have "map (\<lambda>i. emit_j l (l + 1) i [0..l]) [0..l] =
        map (\<lambda>i. map (\<lambda>j. [i, j, l - i - j]) [0..l - i]) [0..l]"
    by (intro map_cong) (auto simp: emit_j_closed)
  then show ?thesis
    unfolding emit_i_def triples_def py_range_Suc by (rule arg_cong)
qed

lemma sum_descending:
  "- 1 \<le> l \<Longrightarrow> l \<le> c \<Longrightarrow> 2 * int (\<Sum>i\<leftarrow>[0..l]. nat (c - i)) = (l + 1) * (2 * c - l)"
proof (induction l rule: int_ge_induct)
  case base
  then show ?case by simp
next
  case (step l)
  from step.hyps have "[0..l + 1] = [0..l] @ [l + 1]"
    using upto_rec2 [of 0 "l + 1"] by simp
  with step show ?case by (simp add: algebra_simps)
qed

lemma sum_rows: "0 \<le> l \<Longrightarrow> (\<Sum>i\<leftarrow>[0..l]. nat (l - i + 1)) = nat ((l + 2) * (l + 1) div 2)"
proof -
  assume "0 \<le> l"
  then have "2 * int (\<Sum>i\<leftarrow>[0..l]. nat (l + 1 - i)) = (l + 1) * (l + 2)"
    using sum_descending [of l "l + 1"] by simp
  moreover have "(\<lambda>i. nat (l - i + 1)) = (\<lambda>i. nat (l + 1 - i))"
    by (rule ext) (simp add: algebra_simps)
  ultimately show ?thesis by (simp add: mult.commute)
qed

lemma length_triples: "0 \<le> l \<Longrightarrow> length (triples l) = nat ((l + 2) * (l + 1) div 2)"
  using sum_rows by (simp add: triples_def length_concat comp_def)

lemma row_before_triple [simp]:
  "row_before [i, j, k] [i', j', k'] \<longleftrightarrow>
     i < i' \<or> (i = i' \<and> (j < j' \<or> (j = j' \<and> k < k')))"
  by (simp add: row_before_def)

lemma row_before_irrefl: "\<not> row_before r r"
  by (simp add: row_before_def lexord_irreflexive)

lemma sorted_wrt_concat_map:
  "sorted_wrt R (concat (map f xs)) \<longleftrightarrow>
     (\<forall>x\<in>set xs. sorted_wrt R (f x)) \<and>
     sorted_wrt (\<lambda>x y. \<forall>a\<in>set (f x). \<forall>b\<in>set (f y). R a b) xs"
  by (induction xs) (auto simp: sorted_wrt_append)

lemma sorted_wrt_distinct:
  "sorted_wrt R xs \<Longrightarrow> (\<And>x. \<not> R x x) \<Longrightarrow> distinct xs"
  by (induction xs) auto

lemma triples_sorted: "sorted_wrt row_before (triples l)"
proof -
  have inner: "sorted_wrt row_before (map (\<lambda>j. [i, j, l - i - j]) [0..l - i])" for i
    unfolding sorted_wrt_map
    by (rule sorted_wrt_mono_rel [OF _ sorted_wrt_upto]) simp
  have outer: "sorted_wrt (\<lambda>i i'. \<forall>a\<in>set (map (\<lambda>j. [i, j, l - i - j]) [0..l - i]).
                 \<forall>b\<in>set (map (\<lambda>j. [i', j, l - i' - j]) [0..l - i']). row_before a b) [0..l]"
    by (rule sorted_wrt_mono_rel [OF _ sorted_wrt_upto]) auto
  show ?thesis
    unfolding triples_def sorted_wrt_concat_map using inner outer by blast
qed

lemma triples_distinct: "distinct (triples l)"
  by (rule sorted_wrt_distinct [OF triples_sorted]) (rule row_before_irrefl)

lemma triples_set:
  "set (triples l) = {[i, j, k] | i j k. 0 \<le> i \<and> 0 \<le> j \<and> 0 \<le> k \<and> i + j + k = l}"
proof (intro set_eqI iffI)
  fix r assume "r \<in> set (triples l)"
  then obtain i j where "0 \<le> i" "i \<le> l" "0 \<le> j" "j \<le> l - i" "r = [i, j, l - i - j]"
    by (auto simp: triples_def)
  then show "r \<in> {[i, j, k] | i j k. 0 \<le> i \<and> 0 \<le> j \<and> 0 \<le> k \<and> i + j + k = l}"
    by auto
next
  fix r assume "r \<in> {[i, j, k] | i j k. 0 \<le> i \<and> 0 \<le> j \<and> 0 \<le> k \<and> i + j + k = l}"
  then obtain i j k where r: "r = [i, j, k]" and "0 \<le> i" "0 \<le> j" "0 \<le> k" "i + j + k = l"
    by auto
  then have "i \<in> set [0..l]" "j \<in> set [0..l - i]" "k = l - i - j" by auto
  with r show "r \<in> set (triples l)"
    unfolding triples_def set_concat by (auto simp del: set_upto)
qed

lemma triples_length3: "r \<in> set (triples l) \<Longrightarrow> length r = 3"
  by (auto simp: triples_def)

lemma cartesian_gtf_exponents_triples:
  assumes "0 \<le> l"
  shows "cartesian_gtf_exponents l = Inr (map Some (triples l))"
proof -
  let ?n = "nat ((l + 1 + 1) * (l + 1) div 2)"
  let ?s = "\<lparr>values_arr = replicate ?n None, h = 0\<rparr>"
  have len: "length (triples l) = ?n"
    using length_triples [OF assms] by (simp add: algebra_simps)
  have full: "values_arr (write_rows ?s (triples l)) = map Some (triples l)"
    by (rule write_rows_full [OF len])
  from len have "h ?s + length (emit_i l (l + 1) [0..l]) \<le> length (values_arr ?s)"
    by (simp add: emit_i_closed [OF assms])
  then have loop: "loop_i l (l + 1) (py_range (l + 1)) ?s = Inr (write_rows ?s (triples l))"
    using loop_i_write [of ?s l "l + 1" "[0..l]"] by (simp add: emit_i_closed [OF assms])
  show ?thesis
    unfolding cartesian_gtf_exponents_def Let_def by (simp only: loop sum.case full)
qed

text \<open>
  Claim C1. For every integer \<open>l \<ge> 0\<close>, \<^verbatim>\<open>cartesian_gtf_exponents(l)\<close> returns without
  raising an array of \<open>(l+1)(l+2)/2\<close> rows of three integers, every row written, no row
  twice, and the rows are exactly the triples \<open>(i, j, k)\<close> of non-negative integers with
  \<open>i + j + k = l\<close>.
\<close>

theorem cartesian_gtf_exponents_complete:
  assumes "0 \<le> l"
  shows "\<exists>rs. cartesian_gtf_exponents l = Inr (map Some rs) \<and>
           length rs = nat ((l + 1) * (l + 2) div 2) \<and>
           (\<forall>r\<in>set rs. length r = 3) \<and>
           distinct rs \<and>
           set rs = {[i, j, k] | i j k. 0 \<le> i \<and> 0 \<le> j \<and> 0 \<le> k \<and> i + j + k = l}"
proof (intro exI conjI)
  show "cartesian_gtf_exponents l = Inr (map Some (triples l))"
    by (rule cartesian_gtf_exponents_triples [OF assms])
  show "length (triples l) = nat ((l + 1) * (l + 2) div 2)"
    using length_triples [OF assms] by (simp add: mult.commute)
  show "\<forall>r\<in>set (triples l). length r = 3"
    by (simp add: triples_length3)
  show "distinct (triples l)" by (rule triples_distinct)
  show "set (triples l) = {[i, j, k] | i j k. 0 \<le> i \<and> 0 \<le> j \<and> 0 \<le> k \<and> i + j + k = l}"
    by (rule triples_set)
qed

theorem cartesian_gtf_exponents_complete_witness:
  "(0::int) \<le> 2 \<and>
   (\<exists>rs. cartesian_gtf_exponents 2 = Inr (map Some rs) \<and>
      length rs = 6 \<and> (\<forall>r\<in>set rs. length r = 3) \<and> distinct rs \<and>
      set rs = {[i, j, k] | i j k. 0 \<le> i \<and> 0 \<le> j \<and> 0 \<le> k \<and> i + j + k = 2})"
  using cartesian_gtf_exponents_complete [of 2] by simp

lemma row_before_trans: "row_before a b \<Longrightarrow> row_before b c \<Longrightarrow> row_before a c"
proof -
  have "trans {(x, y). x < (y :: int)}" by (auto simp: trans_def)
  then show "row_before a b \<Longrightarrow> row_before b c \<Longrightarrow> row_before a c"
    unfolding row_before_def by (rule lexord_trans [rotated 2])
qed

lemma sorted_wrt_row_before_unique:
  "sorted_wrt row_before xs \<Longrightarrow> sorted_wrt row_before ys \<Longrightarrow> set ys = set xs \<Longrightarrow> ys = xs"
proof (induction xs arbitrary: ys)
  case Nil
  then show ?case by simp
next
  case (Cons x xs)
  from Cons.prems(3) obtain y ys' where ys: "ys = y # ys'" by (cases ys) auto
  from Cons.prems(1) have xlt: "\<forall>a\<in>set xs. row_before x a" and sx: "sorted_wrt row_before xs"
    by simp_all
  from Cons.prems(2) ys have ylt: "\<forall>a\<in>set ys'. row_before y a"
    and sy: "sorted_wrt row_before ys'" by simp_all
  have "x = y"
  proof (rule ccontr)
    assume ne: "x \<noteq> y"
    from Cons.prems(3) ys have "x \<in> set (y # ys')" "y \<in> set (x # xs)" by auto
    with ne have "x \<in> set ys'" "y \<in> set xs" by auto
    with xlt ylt have "row_before y x" "row_before x y" by auto
    then have "row_before x x" by (rule row_before_trans [rotated])
    then show False by (simp add: row_before_irrefl)
  qed
  moreover have "x \<notin> set xs" "y \<notin> set ys'"
    using xlt ylt row_before_irrefl by blast+
  ultimately have "set ys' = set xs"
    using Cons.prems(3) ys by auto
  from Cons.IH [OF sx sy this] \<open>x = y\<close> ys show ?case by simp
qed

text \<open>
  Claim C6. For every \<open>l \<ge> 0\<close> the rows of the array are the triples of non-negative
  integers summing to \<open>l\<close>, emitted in strictly ascending lexicographic order of
  \<open>(i, j, k)\<close>: each row is before the rows after it, where \<open>[i, j, k]\<close> is before
  \<open>[i', j', k']\<close> when \<open>i < i'\<close>, or \<open>i = i'\<close> and \<open>j < j'\<close>, or \<open>i = i'\<close>, \<open>j = j'\<close>
  and \<open>k < k'\<close>. That order is fixed: any ascending list of the same triples is the list
  of rows returned. Two calls with the same \<open>l\<close> return the same array.
\<close>

theorem cartesian_gtf_exponents_order:
  assumes "0 \<le> l"
  shows "\<exists>rs. cartesian_gtf_exponents l = Inr (map Some rs) \<and>
           set rs = {[i, j, k] | i j k. 0 \<le> i \<and> 0 \<le> j \<and> 0 \<le> k \<and> i + j + k = l} \<and>
           sorted_wrt row_before rs \<and>
           (\<forall>rs'. set rs' = set rs \<and> sorted_wrt row_before rs' \<longrightarrow> rs' = rs) \<and>
           (\<forall>l'. l' = l \<longrightarrow> cartesian_gtf_exponents l' = cartesian_gtf_exponents l)"
proof (intro exI conjI allI impI)
  show "cartesian_gtf_exponents l = Inr (map Some (triples l))"
    by (rule cartesian_gtf_exponents_triples [OF assms])
  show "set (triples l) = {[i, j, k] | i j k. 0 \<le> i \<and> 0 \<le> j \<and> 0 \<le> k \<and> i + j + k = l}"
    by (rule triples_set)
  show "sorted_wrt row_before (triples l)" by (rule triples_sorted)
  show "rs' = triples l" if "set rs' = set (triples l) \<and> sorted_wrt row_before rs'" for rs'
    using that sorted_wrt_row_before_unique [OF triples_sorted, of rs' l] by blast
  show "cartesian_gtf_exponents l' = cartesian_gtf_exponents l" if "l' = l" for l'
    using that by simp
qed

theorem cartesian_gtf_exponents_order_witness:
  "(0::int) \<le> 2 \<and>
   cartesian_gtf_exponents 2 =
     Inr (map Some [[0, 0, 2], [0, 1, 1], [0, 2, 0], [1, 0, 1], [1, 1, 0], [2, 0, 0]]) \<and>
   set [[0, 0, 2], [0, 1, 1], [0, 2, 0], [1, 0, 1], [1, 1, 0], [2, 0, 0]] =
     {[i, j, k] | i j k. 0 \<le> i \<and> 0 \<le> j \<and> 0 \<le> k \<and> i + j + k = (2::int)} \<and>
   sorted_wrt row_before [[0, 0, 2], [0, 1, 1], [0, 2, 0], [1, 0, 1], [1, 1, 0], [2::int, 0, 0]]"
proof -
  have v: "cartesian_gtf_exponents 2 =
     Inr (map Some [[0, 0, 2], [0, 1, 1], [0, 2, 0], [1, 0, 1], [1, 1, 0], [2, 0, 0]])"
    by code_simp
  from cartesian_gtf_exponents_order [of 2] obtain rs where
    r: "cartesian_gtf_exponents 2 = Inr (map Some rs)" and
    st: "set rs = {[i, j, k] | i j k. 0 \<le> i \<and> 0 \<le> j \<and> 0 \<le> k \<and> i + j + k = (2::int)}" and
    so: "sorted_wrt row_before rs"
    by auto
  from r v have "map Some rs =
      map Some [[0, 0, 2], [0, 1, 1], [0, 2, 0], [1, 0, 1], [1, 1, 0], [2, 0, 0]]"
    by simp
  then have "rs = [[0, 0, 2], [0, 1, 1], [0, 2, 0], [1, 0, 1], [1, 1, 0], [2, 0, 0]]"
    by (simp only: inj_map_eq_map [OF inj_Some])
  with v st so show ?thesis by simp
qed

section \<open>Proofs: effects of the evaluators\<close>

lemma bindr_Inr_E:
  assumes "bindr m f w = (Inr r, w')"
  obtains a w1 where "m w = (Inr a, w1)" "f a w1 = (Inr r, w')"
  using assms by (auto simp: bindr_def split: prod.splits sum.splits)

lemma keeps_uni_returnr [intro!]: "keeps_uni (returnr a)"
  by (simp add: keeps_uni_def returnr_def)

lemma keeps_uni_raiser [intro!]: "keeps_uni (raiser e)"
  by (simp add: keeps_uni_def raiser_def)

lemma keeps_uni_emit [intro!]: "keeps_uni (emit ev)"
  by (simp add: keeps_uni_def emit_def)

lemma keeps_uni_print_if [intro!]: "keeps_uni (print_if b msg)"
  by (simp add: print_if_def keeps_uni_emit keeps_uni_returnr)

lemma keeps_uni_call [intro!]: "keeps_uni (call ev r)"
  by (simp add: keeps_uni_def call_def)

lemma keeps_uni_call_on [intro!]: "keeps_uni (call_on table ev r)"
  by (cases r) (simp_all add: keeps_uni_def call_on_def store_table_def)

lemma keeps_uni_bindr [intro!]:
  assumes "keeps_uni m" "\<And>a. keeps_uni (f a)"
  shows "keeps_uni (bindr m f)"
  unfolding keeps_uni_def
proof
  fix w
  show "uni (snd (bindr m f w)) = uni w"
  proof (cases "m w")
    case (Pair r w1)
    with assms(1) have "uni w1 = uni w" by (auto simp: keeps_uni_def dest: spec [of _ w])
    with Pair assms(2) show ?thesis
      by (cases r) (auto simp: bindr_def keeps_uni_def)
  qed
qed

lemma keeps_uni_loc0 [intro!]: "keeps_uni (loc0 xs)"
  by (cases xs) (simp_all add: loc0_def keeps_uni_returnr keeps_uni_raiser)

lemma keeps_uni_orbital_column [intro!]: "keeps_uni (orbital_column col)"
  by (simp add: keeps_uni_def orbital_column_def split: option.splits)

lemma keeps_uni_try_compute_orbitals [intro!]:
  "keeps_uni (try_compute_orbitals c announce npts bvs vector mocoefs)"
  by (simp add: keeps_uni_def try_compute_orbitals_def call_def bindr_def print_if_def
      emit_def returnr_def split: sum.splits)

lemma keeps_uni_setup_orbital [intro!]:
  "keeps_uni (setup_orbital c verbose vector fps icoefs jcoefs irrep)"
  unfolding setup_orbital_def
  by (auto intro!: keeps_uni_bindr split: option.splits prod.splits)


lemma keeps_uniD: "keeps_uni m \<Longrightarrow> uni (snd (m w)) = uni w"
  by (simp add: keeps_uni_def)




text \<open>
  Claim C3. When \<^verbatim>\<open>rcoefs\<close> is \<^verbatim>\<open>None\<close> or \<^verbatim>\<open>icoefs\<close> is \<^verbatim>\<open>None\<close>,
  \<^verbatim>\<open>add_orb_ang_mom\<close> raises an exception whose message names both, and the state is
  the one before the call: nothing was printed, no collaborator was called (no grid
  evaluation, no coefficient lookup), and the universe is unchanged.
\<close>

theorem add_orb_ang_mom_requires_both:
  assumes "rcoefs = None \<or> icoefs = None"
  shows "add_orb_ang_mom c fp rcoefs icoefs orbocc maxes inplace verbose w =
           (Inl (Raise Exception ''Must specify rcoefs and icoefs''), w)"
  using assms by (auto simp: add_orb_ang_mom_def raiser_def split: option.splits)

theorem add_orb_ang_mom_requires_both_witness:
  "((Some ''lreal'' = None \<or> (None :: string option) = None) \<and>
    add_orb_ang_mom example_collaborators None (Some ''lreal'') None None None True True
      example_world =
      (Inl (Raise Exception ''Must specify rcoefs and icoefs''), example_world)) \<and>
   log example_world = []"
  using add_orb_ang_mom_requires_both
    [of "Some ''lreal''" None example_collaborators None None None True True example_world]
  by (simp add: example_world_def)

section \<open>Proofs: the fallback and the field\<close>

text \<open>
  Claim C2, as amended. The specialised orbital computation is tried first. The generic
  computation is called if and only if the specialised one raised a ValueError, an
  IndexError or an AssertionError, and then exactly once and on the same arguments. When
  the specialised computation succeeds its result is the result; when it raises an
  exception that is not caught, that exception reaches the caller; when the generic
  computation is called, its outcome is the outcome: its result if it succeeds, and its
  own exception if it fails. The universe is not touched.
\<close>

theorem try_compute_orbitals_fallback:
  "(let fast = compute_orbitals c npts bvs vector mocoefs;
        generic = compute_orbitals_nojit c npts bvs vector mocoefs;
        res = try_compute_orbitals c announce npts bvs vector mocoefs w
    in filter is_nojit (log (snd res)) =
         filter is_nojit (log w) @
           (if \<exists>e. fast = Inl e \<and> caught e
            then [ComputeOrbitalsNojit npts bvs vector mocoefs] else []) \<and>
       (\<forall>ovs. fast = Inr ovs \<longrightarrow> fst res = Inr ovs) \<and>
       (\<forall>e. fast = Inl e \<and> caught e \<longrightarrow> fst res = generic) \<and>
       (\<forall>e. fast = Inl e \<and> \<not> caught e \<longrightarrow> fst res = Inl e) \<and>
       uni (snd res) = uni w)"
  by (cases "compute_orbitals c npts bvs vector mocoefs")
     (simp_all add: try_compute_orbitals_def call_def bindr_def print_if_def emit_def returnr_def)

theorem try_compute_orbitals_fallback_witness:
  "compute_orbitals example_collaborators 2 [[1, 0], [0, 1]] [0] [[1, 0], [0, 1]] =
     Inl (Raise ValueError ''unsupported input'') \<and>
   caught (Raise ValueError ''unsupported input'') \<and>
   filter is_nojit (log (snd (try_compute_orbitals example_collaborators True 2
     [[1, 0], [0, 1]] [0] [[1, 0], [0, 1]] example_world))) =
     [ComputeOrbitalsNojit 2 [[1, 0], [0, 1]] [0] [[1, 0], [0, 1]]] \<and>
   fst (try_compute_orbitals example_collaborators True 2
     [[1, 0], [0, 1]] [0] [[1, 0], [0, 1]] example_world) = Inr [[1], [0]]"
  using try_compute_orbitals_fallback
    [of example_collaborators 2 "[[1, 0], [0, 1]]" "[0]" "[[1, 0], [0, 1]]" True example_world]
  by (simp add: Let_def example_collaborators_def example_world_def caught_def
      evaluate_orbitals_def)

text \<open>
  The claim as stated has the exception of the specialised computation reach the caller
  when the generic computation fails too. Here the specialised computation raises an
  AssertionError, the generic one an IndexError, and the caller gets the IndexError.
\<close>

theorem fallback_error_class_counterexample:
  "compute_orbitals failing_collaborators 2 [[1, 0], [0, 1]] [5] [[1, 0], [0, 1]] =
     Inl (Raise AssertionError ''orbital index outside the coefficient matrix'') \<and>
   fst (try_compute_orbitals failing_collaborators True 2 [[1, 0], [0, 1]] [5] [[1, 0], [0, 1]]
          example_world) =
     Inl (Raise IndexError ''index 5 is out of bounds for axis 1 with size 2'') \<and>
   fst (add_molecular_orbitals failing_collaborators None None (Some [5]) False False False None
          example_world) =
     Inl (Raise IndexError ''index 5 is out of bounds for axis 1 with size 2'') \<and>
   fst (add_density failing_collaborators None None None False False example_world) =
     Inl (Raise IndexError ''index 5 is out of bounds for axis 1 with size 2'')"
  by (simp add: failing_collaborators_def example_collaborators_def example_world_def
      example_universe_def try_compute_orbitals_def add_molecular_orbitals_def add_density_def
      setup_orbital_def call_def call_on_def store_table_def bindr_def print_if_def emit_def returnr_def caught_def
      orbital_column_def density_orbocc_def isclose0_def Let_def)

text \<open>
  Claim C7. When \<^verbatim>\<open>append_field\<close> is called with an integer frame that is not in the
  index of the universe's frame table, it raises IndexError, and the attached field and
  the flag \<^verbatim>\<open>_traits_need_update\<close> are what they were before the call.
\<close>

theorem append_field_missing_frame:
  assumes "fst (frame_property minimal_frame u) = Some idx" and "n \<notin> set idx"
  shows "fst (append_field minimal_frame u field (FrameInt n) fvs) =
           Inl (Raise IndexError ''frame {} does not exist in the universe?'') \<and>
         u_field (snd (append_field minimal_frame u field (FrameInt n) fvs)) = u_field u \<and>
         traits_need_update (snd (append_field minimal_frame u field (FrameInt n) fvs)) =
           traits_need_update u"
  using assms
  by (auto simp: append_field_def frame_property_def Let_def split: option.splits if_splits)

theorem append_field_missing_frame_witness:
  "fst (frame_property (\<lambda>a. a) example_universe) = Some [0] \<and> (3::int) \<notin> set [0] \<and>
   append_field (\<lambda>a. a) example_universe example_field (FrameInt 3) None =
     (Inl (Raise IndexError ''frame {} does not exist in the universe?''), example_universe)"
  using append_field_missing_frame [of "\<lambda>a. a" example_universe "[0]" 3 example_field None]
  by (simp add: append_field_def frame_property_def example_universe_def Let_def)

lemma add_field_as_append_field:
  "append_field minimal_frame u field FrameNone None = (Inr (), add_field u field)"
  by (simp add: append_field_def add_field_def reconstruct_field_def Let_def
      split: option.splits)

text \<open>
  Claim C4. A field is attached in place to a universe that already holds one. With
  \<^verbatim>\<open>replace=True\<close> the universe afterwards holds the new field only. With
  \<^verbatim>\<open>replace=False\<close> it holds the rows of grid metadata of the old field followed by
  those of the new one, each as it was, and the value list of the old field followed by
  that of the new one. \<^verbatim>\<open>Universe.append_field\<close> collects the two fields in the same
  way.
\<close>

theorem attach_replace_or_collect:
  assumes "u_field (uni w) = Some old"
  shows "u_field (uni (snd (teardown_orbital verbose field True True dens w))) = Some field \<and>
         u_field (uni (snd (teardown_orbital verbose field True False dens w))) =
           Some \<lparr>rows = rows old @ rows field,
                 field_values = field_values old @ field_values field\<rparr> \<and>
         u_field (snd (append_field minimal_frame (uni w) field FrameNone None)) =
           Some \<lparr>rows = rows old @ rows field,
                 field_values = field_values old @ field_values field\<rparr>"
  using assms
  by (simp add: teardown_orbital_def bindr_def print_if_def emit_def returnr_def add_field_def
      append_field_def reconstruct_field_def Let_def)

theorem attach_replace_or_collect_witness:
  "u_field (uni (example_world\<lparr>uni := example_universe\<lparr>u_field := Some example_field\<rparr>\<rparr>)) =
     Some example_field \<and>
   u_field (uni (snd (teardown_orbital False other_field True True False
     (example_world\<lparr>uni := example_universe\<lparr>u_field := Some example_field\<rparr>\<rparr>)))) =
     Some other_field \<and>
   field_values (the (u_field (uni (snd (teardown_orbital False other_field True False False
     (example_world\<lparr>uni := example_universe\<lparr>u_field := Some example_field\<rparr>\<rparr>)))))) =
     [[1, 2], [3, 4]]"
  using attach_replace_or_collect
    [of "example_world\<lparr>uni := example_universe\<lparr>u_field := Some example_field\<rparr>\<rparr>"
        example_field False other_field False "\<lambda>a. a"]
  by (simp add: example_world_def example_field_def other_field_def)

section \<open>Proofs: the occupation column and the prints\<close>

text \<open>
  Claim C10. In \<^verbatim>\<open>add_density\<close> with \<^verbatim>\<open>orbocc\<close> omitted, a \<^verbatim>\<open>mocoefs\<close> other than
  \<^verbatim>\<open>'coef'\<close> is the column name handed to the lookup in the orbital table; the name is
  left to the lookup's default (\<^verbatim>\<open>None\<close>) exactly when \<^verbatim>\<open>mocoefs\<close> is \<^verbatim>\<open>None\<close> or
  \<^verbatim>\<open>'coef'\<close>. The occupations are then read from the column the lookup returns: after
  the setup and the lookup, the orbitals evaluated are those whose entry in that column is
  not close to zero, the occupation vector given to the density holds the entries of that
  column at those orbitals, and the call goes on from there.
\<close>

theorem add_density_occupation_column:
  assumes su: "setup_orbital c verbose None fp mocoefs None None w =
                    (Inr (vector0, fps, x, y, z, bvs, cm, jc), w1)"
    and col: "check_column c ''orbital'' (density_orbocc None mocoefs) = Inr col"
    and tbl: "u_orbital (uni w) = Some cols" "map_of cols col = Some occ"
  shows "(\<forall>name. mocoefs = Some name \<and> name \<noteq> ''coef'' \<longrightarrow>
            density_orbocc None mocoefs = Some name) \<and>
         (density_orbocc None mocoefs = None \<longleftrightarrow> mocoefs = None \<or> mocoefs = Some ''coef'') \<and>
         add_density c fp mocoefs None inplace verbose w =
           (let vector = filter (\<lambda>i. \<not> isclose0 (occ ! i)) [0..<length occ]
            in
            bindr (try_compute_orbitals c True (length x) bvs vector cm) (\<lambda>ovs.
            bindr (call (Call ''_compute_density'')
                     (compute_density c ovs (map (\<lambda>i. occ ! i) vector))) (\<lambda>dens.
            bindr (loc0 fps) (\<lambda>fp0.
            bindr (call (Call ''_make_field'') (make_field c (Arr1 dens) [fp0])) (\<lambda>field.
            teardown_orbital verbose field inplace False False)))))
           (w1\<lparr>log := log w1 @ [CheckColumn ''orbital'' (density_orbocc None mocoefs)]\<rparr>)"
proof (intro conjI)
  show "\<forall>name. mocoefs = Some name \<and> name \<noteq> ''coef'' \<longrightarrow>
          density_orbocc None mocoefs = Some name"
    by (simp add: density_orbocc_def)
  show "density_orbocc None mocoefs = None \<longleftrightarrow> mocoefs = None \<or> mocoefs = Some ''coef''"
    by (auto simp: density_orbocc_def)
  let ?w2 = "w1\<lparr>log := log w1 @ [CheckColumn ''orbital'' (density_orbocc None mocoefs)]\<rparr>"
  have "uni w1 = uni w"
    using keeps_uniD [OF keeps_uni_setup_orbital, of c verbose None fp mocoefs None None w] su
    by simp
  then have oc: "orbital_column col ?w2 = (Inr occ, ?w2)"
    using tbl by (simp add: orbital_column_def)
  show "add_density c fp mocoefs None inplace verbose w =
           (let vector = filter (\<lambda>i. \<not> isclose0 (occ ! i)) [0..<length occ]
            in
            bindr (try_compute_orbitals c True (length x) bvs vector cm) (\<lambda>ovs.
            bindr (call (Call ''_compute_density'')
                     (compute_density c ovs (map (\<lambda>i. occ ! i) vector))) (\<lambda>dens.
            bindr (loc0 fps) (\<lambda>fp0.
            bindr (call (Call ''_make_field'') (make_field c (Arr1 dens) [fp0])) (\<lambda>field.
            teardown_orbital verbose field inplace False False))))) ?w2"
    unfolding add_density_def
    by (subst bindr_def, simp only: su prod.case sum.case)
       (subst bindr_def, simp only: call_def col prod.case sum.case,
        subst bindr_def, simp only: oc prod.case sum.case Let_def)
qed

theorem add_density_occupation_column_witness:
  "setup_orbital example_collaborators False None None (Some ''lreal'') None None example_world =
     (Inr ([0, 1], [\<lparr>frame = 0, grid = ()\<rparr>, \<lparr>frame = 0, grid = ()\<rparr>], [0, 1], [0, 0], [0, 0],
           [[1, 0], [0, 1]], [[1, 0], [0, 1]], None),
      example_world\<lparr>stored := [''basis_functions'', ''current_momatrix''],
        log := [Call ''len(uni.basis_functions)'', Call ''_determine_vector'',
                Call ''_determine_fps'', Call ''numerical_grid_from_field_params'',
                Call ''uni.basis_functions.evaluate'',
                CheckColumn ''current_momatrix'' (Some ''lreal''),
                Call ''uni.current_momatrix.square'']\<rparr>) \<and>
   check_column example_collaborators ''orbital'' (density_orbocc None (Some ''lreal'')) =
     Inr ''lreal'' \<and>
   map_of [(''occupation'', [2, 0]), (''empty'', [0, 0 :: real]), (''lreal'', [1, 0])] ''lreal'' =
     Some [1, 0] \<and>
   density_orbocc None (Some ''lreal'') = Some ''lreal'' \<and>
   fst (add_density example_collaborators None (Some ''lreal'') None False False example_world) =
     Inr (Some \<lparr>rows = [\<lparr>frame = 0, grid = ()\<rparr>], field_values = [[1, 0]]\<rparr>)"
proof -
  have su: "setup_orbital example_collaborators False None None (Some ''lreal'') None None
      example_world =
     (Inr ([0, 1], [\<lparr>frame = 0, grid = ()\<rparr>, \<lparr>frame = 0, grid = ()\<rparr>], [0, 1], [0, 0], [0, 0],
           [[1, 0], [0, 1]], [[1, 0], [0, 1]], None),
      example_world\<lparr>stored := [''basis_functions'', ''current_momatrix''],
        log := [Call ''len(uni.basis_functions)'', Call ''_determine_vector'',
                Call ''_determine_fps'', Call ''numerical_grid_from_field_params'',
                Call ''uni.basis_functions.evaluate'',
                CheckColumn ''current_momatrix'' (Some ''lreal''),
                Call ''uni.current_momatrix.square'']\<rparr>)"
    by (simp add: example_collaborators_def example_world_def setup_orbital_def call_def
        call_on_def store_table_def bindr_def print_if_def returnr_def numeral_2_eq_2)
  have col: "check_column example_collaborators ''orbital''
               (density_orbocc None (Some ''lreal'')) = Inr ''lreal''"
    by (simp add: example_collaborators_def density_orbocc_def)
  have tbl: "u_orbital (uni example_world) =
      Some [(''occupation'', [2, 0]), (''empty'', [0, 0]), (''lreal'', [1, 0])]"
    "map_of [(''occupation'', [2, 0]), (''empty'', [0, 0 :: real]), (''lreal'', [1, 0])]
       ''lreal'' = Some [1, 0]"
    by (simp_all add: example_world_def example_universe_def)
  from add_density_occupation_column [OF su col tbl, of False] su col tbl(2)
  show ?thesis
    by (simp add: example_collaborators_def example_world_def
      example_universe_def try_compute_orbitals_def
      call_def bindr_def print_if_def emit_def returnr_def caught_def
      density_orbocc_def isclose0_def Let_def loc0_def teardown_orbital_def
      evaluate_orbitals_def evaluate_density_def make_field_spec_def)
qed

text \<open>
  Claim C8, evaluated. With \<^verbatim>\<open>verbose=False\<close>, \<^verbatim>\<open>add_density\<close> prints the fallback
  notice when the specialised computation is refused, which \<^verbatim>\<open>add_molecular_orbitals\<close>
  on the same universe does not, and \<^verbatim>\<open>add_orb_ang_mom\<close> prints the shapes of both
  coefficient matrices.
\<close>

theorem prints_without_verbose:
  "Print ''Falling back to numpy orbital evaluation.'' \<in>
     set (log (snd (add_density example_collaborators None None None False False
       example_world))) \<and>
   Print ''Falling back to numpy orbital evaluation.'' \<notin>
     set (log (snd (add_molecular_orbitals example_collaborators None None None False False
       False None example_world))) \<and>
   Print ''{rcoefs.shape} {rcoefs.dtype}'' \<in>
     set (log (snd (add_orb_ang_mom example_collaborators None (Some ''lreal'') (Some ''limag'')
       None None False False example_world))) \<and>
   Print ''{icoefs.shape} {icoefs.dtype}'' \<in>
     set (log (snd (add_orb_ang_mom example_collaborators None (Some ''lreal'') (Some ''limag'')
       None None False False example_world)))"
  by (simp add: example_collaborators_def example_world_def
      example_universe_def try_compute_orbitals_def add_density_def add_molecular_orbitals_def
      add_orb_ang_mom_def eye3_def
      setup_orbital_def call_def call_on_def store_table_def bindr_def print_if_def emit_def returnr_def caught_def
      orbital_column_def density_orbocc_def isclose0_def Let_def loc0_def teardown_orbital_def
      evaluate_orbitals_def evaluate_density_def make_field_spec_def)

section \<open>Proofs: density with no occupied orbital\<close>

lemma call_Inr_E:
  assumes "call ev r w = (Inr a, w1)"
  obtains "r = Inr a" "w1 = w\<lparr>log := log w @ [ev]\<rparr>"
  using assms by (auto simp: call_def)

lemma evaluate_density_no_orbitals: "a \<in> set (evaluate_density ovs []) \<Longrightarrow> a = 0"
  by (auto simp: evaluate_density_def)

lemma no_occupied_orbital:
  assumes "\<forall>a\<in>set occ. isclose0 a"
  shows "filter (\<lambda>i. \<not> isclose0 (occ ! i)) [0..<length occ] = []"
  using assms by (simp add: filter_empty_conv)

lemma teardown_orbital_result:
  assumes "teardown_orbital verbose field inplace replace dens w = (Inr r, w')"
  shows "if inplace
         then r = None \<and>
              uni w' = add_field (if replace \<and> u_field (uni w) \<noteq> None
                                  then (uni w)\<lparr>u_field := None\<rparr> else uni w) field
         else r = Some field \<and> uni w' = uni w"
  using assms
  by (auto simp: teardown_orbital_def bindr_def print_if_def emit_def returnr_def Let_def
      split: if_splits)

text \<open>
  Claim C5. When every entry of the occupation column is close to zero, no orbital is
  selected, and the density field that \<^verbatim>\<open>add_density\<close> returns or attaches is zero at
  every grid point. The density and the field are the ones taken from the spec.
\<close>

theorem add_density_zero_occupation:
  assumes cd: "compute_density c = (\<lambda>ovs occ. Inr (evaluate_density ovs occ))"
    and mf: "make_field c = (\<lambda>a fps. Inr (make_field_spec a fps))"
    and col: "check_column c ''orbital'' (density_orbocc orbocc mocoefs) = Inr col"
    and tbl: "u_orbital (uni w) = Some cols" "map_of cols col = Some occ"
    and zero: "\<forall>a\<in>set occ. isclose0 a"
    and run: "add_density c fp mocoefs orbocc inplace verbose w = (Inr r, w')"
  shows "\<exists>fp0 dens. (\<forall>a\<in>set dens. a = 0) \<and>
           (if inplace
            then r = None \<and>
                 uni w' = add_field (uni w) \<lparr>rows = [fp0], field_values = [dens]\<rparr>
            else r = Some \<lparr>rows = [fp0], field_values = [dens]\<rparr> \<and> uni w' = uni w)"
proof -
  from run obtain t w1 where
    s: "setup_orbital c verbose None fp mocoefs None None w = (Inr t, w1)" and
    r1: "(case t of (vector0, fps, x, y, z, bvs, cm, jc) \<Rightarrow>
           bindr (call (CheckColumn ''orbital'' (density_orbocc orbocc mocoefs))
                    (check_column c ''orbital'' (density_orbocc orbocc mocoefs))) (\<lambda>col.
           bindr (orbital_column col) (\<lambda>occ.
           let vector = filter (\<lambda>i. \<not> isclose0 (occ ! i)) [0..<length occ];
               orbocc' = map (\<lambda>i. occ ! i) vector
           in
           bindr (try_compute_orbitals c True (length x) bvs vector cm) (\<lambda>ovs.
           bindr (call (Call ''_compute_density'') (compute_density c ovs orbocc')) (\<lambda>dens.
           bindr (loc0 fps) (\<lambda>fp0.
           bindr (call (Call ''_make_field'') (make_field c (Arr1 dens) [fp0])) (\<lambda>field.
           teardown_orbital verbose field inplace False False))))))) w1 = (Inr r, w')"
    unfolding add_density_def by (rule bindr_Inr_E)
  obtain vector0 fps x y z bvs cm jc where t: "t = (vector0, fps, x, y, z, bvs, cm, jc)"
    by (cases t) auto
  have u1: "uni w1 = uni w"
    using keeps_uniD [OF keeps_uni_setup_orbital, of c verbose None fp mocoefs None None w] s
    by simp
  from r1 [unfolded t prod.case] obtain a w2 where
    c2: "call (CheckColumn ''orbital'' (density_orbocc orbocc mocoefs))
           (check_column c ''orbital'' (density_orbocc orbocc mocoefs)) w1 = (Inr a, w2)" and
    r2: "bindr (orbital_column a) (\<lambda>occ.
           let vector = filter (\<lambda>i. \<not> isclose0 (occ ! i)) [0..<length occ];
               orbocc' = map (\<lambda>i. occ ! i) vector
           in
           bindr (try_compute_orbitals c True (length x) bvs vector cm) (\<lambda>ovs.
           bindr (call (Call ''_compute_density'') (compute_density c ovs orbocc')) (\<lambda>dens.
           bindr (loc0 fps) (\<lambda>fp0.
           bindr (call (Call ''_make_field'') (make_field c (Arr1 dens) [fp0])) (\<lambda>field.
           teardown_orbital verbose field inplace False False))))) w2 = (Inr r, w')"
    by (rule bindr_Inr_E)
  from c2 col have a: "a = col" and u2: "uni w2 = uni w"
    using u1 by (auto elim!: call_Inr_E)
  have oc: "orbital_column col w2 = (Inr occ, w2)"
    using tbl u2 by (simp add: orbital_column_def)
  from r2 [unfolded a] oc have
    r3: "bindr (try_compute_orbitals c True (length x) bvs [] cm) (\<lambda>ovs.
           bindr (call (Call ''_compute_density'') (compute_density c ovs [])) (\<lambda>dens.
           bindr (loc0 fps) (\<lambda>fp0.
           bindr (call (Call ''_make_field'') (make_field c (Arr1 dens) [fp0])) (\<lambda>field.
           teardown_orbital verbose field inplace False False)))) w2 = (Inr r, w')"
    by (simp add: bindr_def Let_def no_occupied_orbital [OF zero])
  from r3 obtain ovs w3 where
    c3: "try_compute_orbitals c True (length x) bvs [] cm w2 = (Inr ovs, w3)" and
    r4: "bindr (call (Call ''_compute_density'') (compute_density c ovs [])) (\<lambda>dens.
           bindr (loc0 fps) (\<lambda>fp0.
           bindr (call (Call ''_make_field'') (make_field c (Arr1 dens) [fp0])) (\<lambda>field.
           teardown_orbital verbose field inplace False False))) w3 = (Inr r, w')"
    by (rule bindr_Inr_E)
  have u3: "uni w3 = uni w"
    using keeps_uniD [OF keeps_uni_try_compute_orbitals, of c True "length x" bvs "[]" cm w2]
      c3 u2 by simp
  let ?dens = "evaluate_density ovs []"
  let ?w4 = "w3\<lparr>log := log w3 @ [Call ''_compute_density'']\<rparr>"
  from r4 have
    r5: "bindr (loc0 fps) (\<lambda>fp0.
           bindr (call (Call ''_make_field'') (make_field c (Arr1 ?dens) [fp0])) (\<lambda>field.
           teardown_orbital verbose field inplace False False)) ?w4 = (Inr r, w')"
    by (simp add: bindr_def call_def cd)
  from r5 obtain fp0 w5 where
    c5: "loc0 fps ?w4 = (Inr fp0, w5)" and
    r6: "bindr (call (Call ''_make_field'') (make_field c (Arr1 ?dens) [fp0])) (\<lambda>field.
           teardown_orbital verbose field inplace False False) w5 = (Inr r, w')"
    by (rule bindr_Inr_E)
  have u5: "uni w5 = uni w"
    using keeps_uniD [OF keeps_uni_loc0, of fps ?w4] c5 u3 by simp
  let ?field = "\<lparr>rows = [fp0], field_values = [?dens]\<rparr>"
  let ?w6 = "w5\<lparr>log := log w5 @ [Call ''_make_field'']\<rparr>"
  from r6 have r7: "teardown_orbital verbose ?field inplace False False ?w6 = (Inr r, w')"
    by (simp add: bindr_def call_def mf make_field_spec_def)
  from teardown_orbital_result [OF r7] u5 have
    "if inplace then r = None \<and> uni w' = add_field (uni w) ?field
     else r = Some ?field \<and> uni w' = uni w"
    by (simp split: if_splits)
  moreover have "\<forall>a\<in>set ?dens. a = 0"
    using evaluate_density_no_orbitals by blast
  ultimately show ?thesis by blast
qed

theorem add_density_zero_occupation_witness:
  "compute_density example_collaborators = (\<lambda>ovs occ. Inr (evaluate_density ovs occ)) \<and>
   make_field example_collaborators = (\<lambda>a fps. Inr (make_field_spec a fps)) \<and>
   check_column example_collaborators ''orbital'' (density_orbocc (Some ''empty'') None) =
     Inr ''empty'' \<and>
   map_of [(''occupation'', [2, 0]), (''empty'', [0, 0 :: real]), (''lreal'', [1, 0])] ''empty'' =
     Some [0, 0] \<and>
   isclose0 0 \<and>
   add_density example_collaborators None None (Some ''empty'') False False example_world =
     (Inr (Some \<lparr>rows = [\<lparr>frame = 0, grid = ()\<rparr>], field_values = [[0, 0]]\<rparr>),
      example_world\<lparr>stored := [''basis_functions'', ''current_momatrix''], log :=
       [Call ''len(uni.basis_functions)'', Call ''_determine_vector'',
        Call ''_determine_fps'', Call ''numerical_grid_from_field_params'',
        Call ''uni.basis_functions.evaluate'',
        CheckColumn ''current_momatrix'' None,
        Call ''uni.current_momatrix.square'',
        CheckColumn ''orbital'' (Some ''empty''),
        ComputeOrbitals 2 [[1, 0], [0, 1]] [] [[1, 0], [0, 1]],
        Print ''Falling back to numpy orbital evaluation.'',
        ComputeOrbitalsNojit 2 [[1, 0], [0, 1]] [] [[1, 0], [0, 1]],
        Call ''_compute_density'', Call ''_make_field'']\<rparr>)"
proof -
  have cd: "compute_density example_collaborators = (\<lambda>ovs occ. Inr (evaluate_density ovs occ))"
    and mf: "make_field example_collaborators = (\<lambda>a fps. Inr (make_field_spec a fps))"
    and col: "check_column example_collaborators ''orbital''
                (density_orbocc (Some ''empty'') None) = Inr ''empty''"
    by (simp_all add: example_collaborators_def density_orbocc_def)
  have tbl: "u_orbital (uni example_world) =
      Some [(''occupation'', [2, 0]), (''empty'', [0, 0]), (''lreal'', [1, 0])]"
    "map_of [(''occupation'', [2, 0]), (''empty'', [0, 0 :: real]), (''lreal'', [1, 0])]
       ''empty'' = Some [0, 0]"
    by (simp_all add: example_world_def example_universe_def)
  have zero: "\<forall>a\<in>set [0, 0 :: real]. isclose0 a" by (simp add: isclose0_def)
  have run: "add_density example_collaborators None None (Some ''empty'') False False
      example_world =
     (Inr (Some \<lparr>rows = [\<lparr>frame = 0, grid = ()\<rparr>], field_values = [[0, 0]]\<rparr>),
      example_world\<lparr>stored := [''basis_functions'', ''current_momatrix''], log :=
       [Call ''len(uni.basis_functions)'', Call ''_determine_vector'',
        Call ''_determine_fps'', Call ''numerical_grid_from_field_params'',
        Call ''uni.basis_functions.evaluate'',
        CheckColumn ''current_momatrix'' None,
        Call ''uni.current_momatrix.square'',
        CheckColumn ''orbital'' (Some ''empty''),
        ComputeOrbitals 2 [[1, 0], [0, 1]] [] [[1, 0], [0, 1]],
        Print ''Falling back to numpy orbital evaluation.'',
        ComputeOrbitalsNojit 2 [[1, 0], [0, 1]] [] [[1, 0], [0, 1]],
        Call ''_compute_density'', Call ''_make_field'']\<rparr>)"
    by (simp add: example_collaborators_def example_world_def
      example_universe_def try_compute_orbitals_def add_density_def
      setup_orbital_def call_def call_on_def store_table_def bindr_def print_if_def emit_def returnr_def caught_def
      orbital_column_def density_orbocc_def isclose0_def Let_def loc0_def teardown_orbital_def
      evaluate_orbitals_def evaluate_density_def make_field_spec_def)
  from add_density_zero_occupation [OF cd mf col tbl zero run] cd mf col tbl(2) run
  show ?thesis by (simp add: isclose0_def)
qed

section \<open>Proofs: the results do not depend on verbose\<close>

lemma agree_returnr [intro!]: "agree (returnr a) (returnr a)"
  by (simp add: agree_def returnr_def)

lemma agree_raiser [intro!]: "agree (raiser e) (raiser e)"
  by (simp add: agree_def raiser_def)

lemma agree_emit [intro!]: "agree (emit e1) (emit e2)"
  by (simp add: agree_def emit_def)

lemma agree_print_if [intro!]: "agree (print_if b1 m1) (print_if b2 m2)"
  by (simp add: agree_def print_if_def emit_def returnr_def)

lemma agree_call [intro!]: "agree (call e1 r) (call e2 r)"
  by (simp add: agree_def call_def)

lemma agree_call_on [intro!]: "agree (call_on t1 e1 r) (call_on t2 e2 r)"
  by (cases r) (simp_all add: agree_def call_on_def store_table_def)

lemma agree_bindr [intro!]:
  assumes "agree m1 m2" "\<And>a. agree (f1 a) (f2 a)"
  shows "agree (bindr m1 f1) (bindr m2 f2)"
  unfolding agree_def
proof (intro allI impI)
  fix w1 w2 :: "'a world"
  assume u: "uni w1 = uni w2"
  obtain r1 v1 where p1: "m1 w1 = (r1, v1)" by (cases "m1 w1")
  obtain r2 v2 where p2: "m2 w2 = (r2, v2)" by (cases "m2 w2")
  from assms(1) u p1 p2 have r: "r1 = r2" and v: "uni v1 = uni v2"
    unfolding agree_def by (metis fst_conv, metis snd_conv)
  show "fst (bindr m1 f1 w1) = fst (bindr m2 f2 w2) \<and>
        uni (snd (bindr m1 f1 w1)) = uni (snd (bindr m2 f2 w2))"
  proof (cases r1)
    case (Inl e)
    with p1 p2 r v show ?thesis by (auto simp: bindr_def)
  next
    case (Inr a)
    from assms(2) [of a] v have "fst (f1 a v1) = fst (f2 a v2) \<and>
        uni (snd (f1 a v1)) = uni (snd (f2 a v2))"
      unfolding agree_def by blast
    with p1 p2 r Inr show ?thesis by (auto simp: bindr_def)
  qed
qed

lemma agree_loc0 [intro!]: "agree (loc0 xs) (loc0 xs)"
  by (cases xs) (simp_all add: loc0_def agree_returnr agree_raiser)

lemma agree_orbital_column [intro!]: "agree (orbital_column col) (orbital_column col)"
  by (simp add: agree_def orbital_column_def split: option.splits)

lemma agree_try_compute_orbitals [intro!]:
  "agree (try_compute_orbitals c a1 npts bvs vector mocoefs)
         (try_compute_orbitals c a2 npts bvs vector mocoefs)"
  by (simp add: agree_def try_compute_orbitals_def call_def bindr_def print_if_def
      emit_def returnr_def split: sum.splits)

lemma agree_teardown_orbital [intro!]:
  "agree (teardown_orbital v1 field inplace replace d1)
         (teardown_orbital v2 field inplace replace d2)"
  by (auto simp: agree_def teardown_orbital_def bindr_def print_if_def emit_def returnr_def
      Let_def)

lemma agree_setup_orbital [intro!]:
  assumes "verbose_blind c"
  shows "agree (setup_orbital c True vector fps icoefs jcoefs irrep)
               (setup_orbital c False vector fps icoefs jcoefs irrep)"
proof -
  from assms have ev: "evaluate c x y z ir True = evaluate c x y z ir False" for x y z ir
    by (simp add: verbose_blind_def)
  show ?thesis
    unfolding setup_orbital_def
    by (auto intro!: agree_bindr simp: ev split: option.splits prod.splits)
qed

lemma agreeD:
  "agree m1 m2 \<Longrightarrow> fst (m1 w) = fst (m2 w) \<and> uni (snd (m1 w)) = uni (snd (m2 w))"
  by (simp add: agree_def)

text \<open>
  The flag \<^verbatim>\<open>verbose\<close> does not reach the results: with collaborators blind to it, each
  evaluator ends with the same outcome (the field returned, or the exception) and the same
  universe for \<^verbatim>\<open>verbose=True\<close> and \<^verbatim>\<open>verbose=False\<close>.
\<close>

theorem verbose_keeps_results:
  assumes "verbose_blind c"
  shows "fst (add_molecular_orbitals c fp mocoefs vector inplace replace True irrep w) =
           fst (add_molecular_orbitals c fp mocoefs vector inplace replace False irrep w) \<and>
         uni (snd (add_molecular_orbitals c fp mocoefs vector inplace replace True irrep w)) =
           uni (snd (add_molecular_orbitals c fp mocoefs vector inplace replace False irrep w)) \<and>
         fst (add_density c fp mocoefs orbocc inplace True w) =
           fst (add_density c fp mocoefs orbocc inplace False w) \<and>
         uni (snd (add_density c fp mocoefs orbocc inplace True w)) =
           uni (snd (add_density c fp mocoefs orbocc inplace False w)) \<and>
         fst (add_orb_ang_mom c fp rcoefs icoefs orbocc maxes inplace True w) =
           fst (add_orb_ang_mom c fp rcoefs icoefs orbocc maxes inplace False w) \<and>
         uni (snd (add_orb_ang_mom c fp rcoefs icoefs orbocc maxes inplace True w)) =
           uni (snd (add_orb_ang_mom c fp rcoefs icoefs orbocc maxes inplace False w))"
proof -
  note s = agree_setup_orbital [OF assms]
  from assms have
    ed: "evaluate_diff c x y z cart True = evaluate_diff c x y z cart False"
    and cc: "compute_current_density c bvs grx gry grz rc ic occ True =
             compute_current_density c bvs grx gry grz rc ic occ False"
    for x y z cart bvs grx gry grz rc ic occ
    by (simp_all add: verbose_blind_def)
  have "agree (add_molecular_orbitals c fp mocoefs vector inplace replace True irrep)
              (add_molecular_orbitals c fp mocoefs vector inplace replace False irrep)"
    unfolding add_molecular_orbitals_def
    by (auto intro!: agree_bindr s split: prod.splits)
  moreover have "agree (add_density c fp mocoefs orbocc inplace True)
                       (add_density c fp mocoefs orbocc inplace False)"
    unfolding add_density_def Let_def
    by (auto intro!: agree_bindr s split: prod.splits)
  moreover have "agree (add_orb_ang_mom c fp rcoefs icoefs orbocc maxes inplace True)
                       (add_orb_ang_mom c fp rcoefs icoefs orbocc maxes inplace False)"
    unfolding add_orb_ang_mom_def
    by (auto intro!: agree_bindr s simp: ed cc split: prod.splits option.splits)
  ultimately show ?thesis
    by (auto dest: agreeD)
qed

theorem verbose_keeps_results_witness:
  "verbose_blind example_collaborators \<and>
   fst (add_density example_collaborators None None None False True example_world) =
     fst (add_density example_collaborators None None None False False example_world) \<and>
   fst (add_density example_collaborators None None None False False example_world) =
     Inr (Some \<lparr>rows = [\<lparr>frame = 0, grid = ()\<rparr>], field_values = [[2, 0]]\<rparr>)"
proof -
  have b: "verbose_blind example_collaborators"
    by (simp add: verbose_blind_def example_collaborators_def)
  have v: "fst (add_density example_collaborators None None None False False example_world) =
     Inr (Some \<lparr>rows = [\<lparr>frame = 0, grid = ()\<rparr>], field_values = [[2, 0]]\<rparr>)"
    by (simp add: example_collaborators_def example_world_def
      example_universe_def try_compute_orbitals_def add_density_def
      setup_orbital_def call_def call_on_def store_table_def bindr_def print_if_def emit_def returnr_def caught_def
      orbital_column_def density_orbocc_def isclose0_def Let_def loc0_def teardown_orbital_def
      evaluate_orbitals_def evaluate_density_def make_field_spec_def)
  from verbose_keeps_results [OF b, of None None _ False _ _ example_world None] b v
  show ?thesis by simp
qed

end
